theory Spec2Isabelle
  imports Complex_Main
begin

section \<open>Evaluation layer of the MovieLens Object2Vec notebook\<close>

text \<open>
  The notebook \<^verbatim>\<open>movie_recommendation_embeddings_Neuran_network.ipynb\<close> defines a scorer
  (\<^verbatim>\<open>get_mse_loss\<close>) and two baselines (\<^verbatim>\<open>bs1_prediction\<close>, \<^verbatim>\<open>bs2_predictor\<close>).
  They are embedded here as HOL functions.

  Numbers. Python's \<^verbatim>\<open>int\<close> and \<^verbatim>\<open>float\<close> values are modelled as exact rationals
  (\<^typ>\<open>rat\<close>): sums, squares, quotients and comparisons are the mathematical ones, and
  binary floating-point error is not represented. The one place where the binary
  representation decides a result, the direction of rounding at an exact decimal tie, is a
  parameter of the model (see \<open>py_round\<close>). The single non-finite value the notebook can
  produce, numpy's \<^verbatim>\<open>nan\<close>, is a constructor of its own (\<open>NaN\<close>).

  Exceptions. Every \<^verbatim>\<open>raise\<close>, failed \<^verbatim>\<open>assert\<close> and failing built-in operation is a
  value \<open>Inl e\<close> of the result type \<open>error + 'a\<close>.
\<close>

subsection \<open>Exceptions\<close>

datatype error =
    AssertionError string
  | KeyError string
  | IndexError
  | ZeroDivisionError
  | ValueError

subsection \<open>Python's built-in \<^verbatim>\<open>round(x, ndigits)\<close>\<close>

text \<open>
  \<^verbatim>\<open>round(x, 2)\<close> on a float returns the multiple of \<open>10\<^sup>-\<^sup>2\<close> nearest to \<open>x\<close>. Where the
  exact quotient lies midway between two multiples (as \<open>1/40 = 0.025\<close> does), the code
  rounds the binary double that stands for it, and that double lies on the tie only when
  the tie is a binary fraction; otherwise it lies just above or just below, and the code
  rounds accordingly (\<^verbatim>\<open>round(1/float(40), 2)\<close> is \<open>0.03\<close>). Exact rationals do not
  determine that direction, so it is the parameter \<open>up\<close> of the model: \<open>up x\<close> holds when
  the tie \<open>x\<close> is rounded upwards. Nothing proved below assumes anything about \<open>up\<close>.
\<close>

type_synonym tie_rule = "rat \<Rightarrow> bool"

definition round_nearest :: "tie_rule \<Rightarrow> rat \<Rightarrow> int" where
  "round_nearest up x =
     (let f = \<lfloor>x\<rfloor>; d = x - of_int f
      in if d < 1 / 2 then f
         else if 1 / 2 < d then f + 1
         else if up x then f + 1 else f)"

definition py_round :: "tie_rule \<Rightarrow> rat \<Rightarrow> nat \<Rightarrow> rat" where
  "py_round up x ndigits = of_int (round_nearest up (x * 10 ^ ndigits)) / 10 ^ ndigits"

subsection \<open>The scorer \<^verbatim>\<open>get_mse_loss\<close>\<close>

text \<open>
  \<^verbatim>\<open>
  def get_mse_loss(res, labels):
      if type(res) is dict:
          res = res['predictions']
      assert len(res)==len(labels), 'result and label length mismatch!'
      loss = 0
      for row, label in zip(res, labels):
          if type(row)is dict:
              loss += (row['scores'][0]-label)**2
          else:
              loss += (row-label)**2
      return round(loss/float(len(labels)), 2)
  \<close>
  A row of the result is either a bare number or a dict (looked up at the key
  \<^verbatim>\<open>'scores'\<close>); the result itself is either a sequence of rows or a dict (looked up at
  the key \<^verbatim>\<open>'predictions'\<close>). Dicts are maps from keys to values, so a missing key is a
  \<open>KeyError\<close> and an empty \<^verbatim>\<open>scores\<close> list an \<open>IndexError\<close>. The first argument of
  the model, \<open>up\<close>, is the tie rule of the final \<^verbatim>\<open>round\<close>.
\<close>

type_synonym score_obj = "string \<rightharpoonup> rat list"

datatype row = Number rat | Obj score_obj

datatype res = Seq "row list" | Response "string \<rightharpoonup> row list"

text \<open>The first two lines: \<^verbatim>\<open>if type(res) is dict: res = res['predictions']\<close>.\<close>

fun unwrap_predictions :: "res \<Rightarrow> error + row list" where
  "unwrap_predictions (Response d) =
     (case d ''predictions'' of
        None \<Rightarrow> Inl (KeyError ''predictions'')
      | Some rows \<Rightarrow> Inr rows)"
| "unwrap_predictions (Seq rows) = Inr rows"

text \<open>The summand one iteration adds to \<^verbatim>\<open>loss\<close>.\<close>

fun row_loss :: "row \<Rightarrow> rat \<Rightarrow> error + rat" where
  "row_loss (Obj d) label =
     (case d ''scores'' of
        None \<Rightarrow> Inl (KeyError ''scores'')
      | Some [] \<Rightarrow> Inl IndexError
      | Some (s # _) \<Rightarrow> Inr ((s - label)\<^sup>2))"
| "row_loss (Number r) label = Inr ((r - label)\<^sup>2)"

text \<open>The \<^verbatim>\<open>for\<close> loop over \<^verbatim>\<open>zip(res, labels)\<close>, with \<^verbatim>\<open>loss\<close> as accumulator.\<close>

fun mse_loop :: "rat \<Rightarrow> (row \<times> rat) list \<Rightarrow> error + rat" where
  "mse_loop loss [] = Inr loss"
| "mse_loop loss ((row, label) # rest) =
     (case row_loss row label of
        Inl e \<Rightarrow> Inl e
      | Inr d \<Rightarrow> mse_loop (loss + d) rest)"

definition get_mse_loss :: "tie_rule \<Rightarrow> res \<Rightarrow> rat list \<Rightarrow> error + rat" where
  "get_mse_loss up res labels =
     (case unwrap_predictions res of
        Inl e \<Rightarrow> Inl e
      | Inr rows \<Rightarrow>
          if length rows \<noteq> length labels
          then Inl (AssertionError ''result and label length mismatch!'')
          else (case mse_loop 0 (zip rows labels) of
                  Inl e \<Rightarrow> Inl e
                | Inr loss \<Rightarrow>
                    if length labels = 0 then Inl ZeroDivisionError
                    else Inr (py_round up (loss / of_nat (length labels)) 2)))"

text \<open>
  The quantity the scorer is specified by, in the specification's words
  \<^verbatim>\<open>sum((p_i - l_i)^2) / n\<close>, for bare numeric predictions \<open>ps\<close> and labels \<open>ls\<close>.
\<close>

definition mean_squared_difference :: "rat list \<Rightarrow> rat list \<Rightarrow> rat" where
  "mean_squared_difference ps ls =
     (\<Sum>i<length ls. (ps ! i - ls ! i)\<^sup>2) / of_nat (length ls)"

text \<open>The predicted value a structured score object carries: the first element of its
  \<^verbatim>\<open>scores\<close> field, when there is one.\<close>

definition first_score :: "score_obj \<Rightarrow> rat option" where
  "first_score d = (case d ''scores'' of Some (s # _) \<Rightarrow> Some s | _ \<Rightarrow> None)"

subsection \<open>numpy's \<^verbatim>\<open>mean\<close> and rounding of its result\<close>

text \<open>
  \<^verbatim>\<open>np.mean\<close> of a non-empty list is the arithmetic mean; of an empty list it is
  \<^verbatim>\<open>nan\<close> (with a warning, no exception). Rounding \<^verbatim>\<open>nan\<close> to two digits gives
  \<^verbatim>\<open>nan\<close>, and every comparison with \<^verbatim>\<open>nan\<close> is false. Rounding a finite mean
  is rounding to the nearest multiple of \<open>10\<^sup>-\<^sup>2\<close>, with the tie rule \<open>up\<close> as above.
\<close>

datatype np_float = NaN | Finite rat

definition np_mean :: "rat list \<Rightarrow> np_float" where
  "np_mean a = (if a = [] then NaN else Finite (sum_list a / of_nat (length a)))"

fun round_np :: "tie_rule \<Rightarrow> np_float \<Rightarrow> nat \<Rightarrow> np_float" where
  "round_np up NaN ndigits = NaN"
| "round_np up (Finite x) ndigits = Finite (py_round up x ndigits)"

fun gt_np :: "np_float \<Rightarrow> rat \<Rightarrow> bool" where
  "gt_np NaN t = False"
| "gt_np (Finite x) t = (t < x)"

subsection \<open>Baseline 1: the global rating average\<close>

text \<open>
  \<^verbatim>\<open>
  train_r_label = [row['label'] for row in copy.deepcopy(train_data_list)]

  bs1_prediction = round(np.mean(train_r_label), 2)
  ... get_mse_loss(len(valid_r_label)*[bs1_prediction], valid_r_label) ...
  \<close>
  A row of the data list is a dict with the keys \<^verbatim>\<open>label\<close>, \<^verbatim>\<open>in0\<close> (the user id, as
  a one-element list) and \<^verbatim>\<open>in1\<close> (the movie id, likewise). The list of predictions
  handed to the scorer, \<^verbatim>\<open>len(valid_r_label)*[bs1_prediction]\<close>, is \<open>bs1_predictions\<close>.
\<close>

record data_row =
  label :: rat
  in0 :: "int list"
  in1 :: "int list"

definition train_r_label :: "data_row list \<Rightarrow> rat list" where
  "train_r_label train_data_list = map label train_data_list"

definition bs1_prediction :: "tie_rule \<Rightarrow> data_row list \<Rightarrow> np_float" where
  "bs1_prediction up train_data_list =
     round_np up (np_mean (train_r_label train_data_list)) 2"

definition bs1_predictions :: "tie_rule \<Rightarrow> data_row list \<Rightarrow> rat list \<Rightarrow> np_float list" where
  "bs1_predictions up train_data_list valid_r_label =
     replicate (length valid_r_label) (bs1_prediction up train_data_list)"

subsection \<open>Baseline 2: the per-user rating average\<close>

text \<open>
  \<^verbatim>\<open>
  def bs2_predictor(test_data, user_dict, is_classification=False, thres=3):
      test_data = copy.deepcopy(test_data['instances'])
      predictions = list()
      for row in test_data:
          userID = str(row["in0"][0])
          # predict movie ID based on local average of user's prediction
          local_movies, local_ratings = zip(*user_dict[userID])
          local_ratings = [float(score) for score in local_ratings]
          predictions.append(np.mean(local_ratings))
          if is_classification:
              predictions[-1] = int(predictions[-1] > 3)
      return predictions
  \<close>
  \<^verbatim>\<open>user_dict\<close> maps a user id, as a decimal string, to that user's list of
  (movie, rating) pairs; ratings are taken as numbers, so \<^verbatim>\<open>float(score)\<close> is the
  identity. \<^verbatim>\<open>str\<close> of an integer is its decimal rendering.
\<close>

fun digit_chars :: "nat \<Rightarrow> string" where
  "digit_chars n =
     (if n < 10 then [''0123456789'' ! n]
      else digit_chars (n div 10) @ [''0123456789'' ! (n mod 10)])"

declare digit_chars.simps [simp del]

definition str :: "int \<Rightarrow> string" where
  "str i = (if i < 0 then CHR ''-'' # digit_chars (nat (- i)) else digit_chars (nat i))"

type_synonym inference_row = "string \<rightharpoonup> int list"

type_synonym user_dict = "string \<rightharpoonup> (string \<times> rat) list"

text \<open>
  One iteration of the loop: the value appended to \<^verbatim>\<open>predictions\<close> for \<open>row\<close>. A missing
  key raises \<open>KeyError\<close>, an empty \<^verbatim>\<open>in0\<close> list \<open>IndexError\<close>, and unpacking
  \<^verbatim>\<open>zip(*[])\<close> into two names \<open>ValueError\<close>. The parameter \<open>thres\<close> is accepted and
  never read: the comparison is against the literal \<^verbatim>\<open>3\<close>.
\<close>

definition bs2_row :: "user_dict \<Rightarrow> bool \<Rightarrow> rat \<Rightarrow> inference_row \<Rightarrow> error + np_float" where
  "bs2_row user_dict is_classification thres row =
     (case row ''in0'' of
        None \<Rightarrow> Inl (KeyError ''in0'')
      | Some [] \<Rightarrow> Inl IndexError
      | Some (u # _) \<Rightarrow>
          (case user_dict (str u) of
             None \<Rightarrow> Inl (KeyError (str u))
           | Some [] \<Rightarrow> Inl ValueError
           | Some (b # bs) \<Rightarrow>
               (let local_ratings = map snd (b # bs);
                    prediction = np_mean local_ratings
                in Inr (if is_classification
                        then Finite (if gt_np prediction 3 then 1 else 0)
                        else prediction))))"

fun bs2_loop ::
  "user_dict \<Rightarrow> bool \<Rightarrow> rat \<Rightarrow> np_float list \<Rightarrow> inference_row list \<Rightarrow> error + np_float list"
where
  "bs2_loop user_dict is_classification thres predictions [] = Inr predictions"
| "bs2_loop user_dict is_classification thres predictions (row # rest) =
     (case bs2_row user_dict is_classification thres row of
        Inl e \<Rightarrow> Inl e
      | Inr p \<Rightarrow> bs2_loop user_dict is_classification thres (predictions @ [p]) rest)"

definition bs2_predictor ::
  "(string \<rightharpoonup> inference_row list) \<Rightarrow> user_dict \<Rightarrow> bool \<Rightarrow> rat \<Rightarrow> error + np_float list"
where
  "bs2_predictor test_data user_dict is_classification thres =
     (case test_data ''instances'' of
        None \<Rightarrow> Inl (KeyError ''instances'')
      | Some rows \<Rightarrow> bs2_loop user_dict is_classification thres [] rows)"

text \<open>The bucket a query row selects: that of the user named by the first element of
  its \<^verbatim>\<open>in0\<close> field.\<close>

definition bucket_of :: "user_dict \<Rightarrow> inference_row \<Rightarrow> (string \<times> rat) list option" where
  "bucket_of user_dict row =
     (case row ''in0'' of Some (u # _) \<Rightarrow> user_dict (str u) | _ \<Rightarrow> None)"

subsection \<open>Binarized labels\<close>

text \<open>
  The notebook binarizes with \<^verbatim>\<open>cu.get_binarized_label(data_list, 3.0)\<close>; the module
  \<^verbatim>\<open>customutil\<close> that defines it is not among the notebook's cells.
\<close>

record rating_record =
  user_id :: int
  item_id :: int
  rating :: rat

record labeled_example =
  example_user_id :: int
  example_item_id :: int
  example_label :: rat

text \<open>
  Modelled from the spec: the body of \<^verbatim>\<open>customutil.get_binarized_label\<close> is missing, so
  the label transformer follows the specification's
  \<^verbatim>\<open>to_classification_label(record, threshold) -> LabeledExample\<close>:
  "label = 1 if record.rating > threshold else 0", the ids carried over unchanged.
\<close>

definition to_classification_label :: "rating_record \<Rightarrow> rat \<Rightarrow> labeled_example" where
  "to_classification_label r threshold =
     \<lparr>example_user_id = user_id r, example_item_id = item_id r,
      example_label = (if rating r > threshold then 1 else 0)\<rparr>"

section \<open>Properties of the scorer\<close>

subsection \<open>Auxiliary facts\<close>

lemma mse_loop_not_ZeroDivisionError:
  "mse_loop loss zs \<noteq> Inl ZeroDivisionError"
proof (induction zs arbitrary: loss)
  case Nil
  show ?case by simp
next
  case (Cons z zs)
  obtain r l where z: "z = (r, l)" by (cases z)
  show ?case
  proof (cases r)
    case (Number x)
    with z Cons show ?thesis by simp
  next
    case (Obj d)
    with z Cons show ?thesis
      by (simp split: option.split list.split)
  qed
qed

lemma mse_loop_numbers:
  "length ps = length ls \<Longrightarrow>
   mse_loop loss (zip (map Number ps) ls) = Inr (loss + (\<Sum>(p, l) \<leftarrow> zip ps ls. (p - l)\<^sup>2))"
  by (induction ps ls arbitrary: loss rule: list_induct2) (simp_all add: add.assoc)

lemma sum_list_zip_nth:
  assumes len: "length ps = length ls"
  shows "(\<Sum>(p, l) \<leftarrow> zip ps ls. f p l) = (\<Sum>i<length ls. f (ps ! i) (ls ! i))"
proof -
  have "(\<Sum>(p, l) \<leftarrow> zip ps ls. f p l)
      = (\<Sum>i = 0..<length (zip ps ls). case zip ps ls ! i of (p, l) \<Rightarrow> f p l)"
    by (simp add: sum_list_sum_nth)
  also have "\<dots> = (\<Sum>i<length ls. f (ps ! i) (ls ! i))"
    using len by (intro sum.cong) (auto simp: lessThan_atLeast0)
  finally show ?thesis .
qed

lemma get_mse_loss_numbers:
  assumes len: "length ps = length ls" and ne: "ps \<noteq> []"
  shows "get_mse_loss up (Seq (map Number ps)) ls
       = Inr (py_round up (mean_squared_difference ps ls) 2)"
proof -
  from len ne have "ls \<noteq> []" by auto
  moreover have "mse_loop 0 (zip (map Number ps) ls)
      = Inr (\<Sum>i<length ls. (ps ! i - ls ! i)\<^sup>2)"
    using len by (simp add: mse_loop_numbers sum_list_zip_nth)
  ultimately show ?thesis
    using len by (simp add: get_mse_loss_def mean_squared_difference_def)
qed

lemma round_nearest_of_int: "round_nearest up (of_int k) = k"
  by (simp add: round_nearest_def)

lemma round_nearest_close: "\<bar>of_int (round_nearest up y) - y\<bar> \<le> 1 / 2"
proof -
  have lo: "of_int \<lfloor>y\<rfloor> \<le> y" and hi: "y < of_int \<lfloor>y\<rfloor> + 1"
    by linarith+
  show ?thesis
    using lo hi unfolding round_nearest_def Let_def
    by (simp add: abs_le_iff)
qed

text \<open>An integer strictly within \<open>1/2\<close> of \<open>y\<close> is the only integer within \<open>1/2\<close> of it.\<close>

lemma nearest_int_unique:
  fixes y :: rat and j k :: int
  assumes k: "\<bar>of_int k - y\<bar> \<le> 1 / 2" and j: "\<bar>of_int j - y\<bar> < 1 / 2"
  shows "j = k"
proof -
  from k j have "\<bar>of_int j - (of_int k :: rat)\<bar> < 1"
    by linarith
  then have "\<bar>(of_int (j - k) :: rat)\<bar> < 1"
    by simp
  then have "\<bar>j - k\<bar> < 1"
    by (simp only: of_int_abs [symmetric] of_int_less_1_iff)
  then show ?thesis by simp
qed

lemma py_round_nearest:
  "\<exists>k::int. py_round up x 2 = of_int k / 100 \<and> \<bar>of_int k - 100 * x\<bar> \<le> 1 / 2 \<and>
     (\<forall>j::int. \<bar>of_int j - 100 * x\<bar> < 1 / 2 \<longrightarrow> j = k)"
proof (intro exI conjI allI impI)
  show "py_round up x 2 = of_int (round_nearest up (x * 100)) / 100"
    by (simp add: py_round_def)
  show c: "\<bar>of_int (round_nearest up (x * 100)) - 100 * x\<bar> \<le> 1 / 2"
    using round_nearest_close [of up "x * 100"] by (simp add: mult.commute)
  fix j :: int
  assume "\<bar>of_int j - 100 * x\<bar> < 1 / 2"
  with c show "j = round_nearest up (x * 100)"
    by (rule nearest_int_unique)
qed

lemma py_round_close: "\<bar>py_round up x 2 - x\<bar> \<le> 1 / 200"
proof -
  have "\<bar>of_int (round_nearest up (x * 100)) - x * 100\<bar> \<le> 1 / 2"
    by (rule round_nearest_close)
  then show ?thesis
    by (simp add: py_round_def abs_le_iff field_simps)
qed

lemma py_round_grid: "py_round up (of_int k / 100) 2 = of_int k / 100"
  by (simp add: py_round_def round_nearest_of_int)

text \<open>
  At a tie the two neighbours are both possible results, and the tie rule selects one:
  for the exact quotient \<open>1/40\<close> the model returns \<open>0.03\<close> under a rule that rounds this
  tie upwards (as the code does, the double of \<open>1/40\<close> lying above \<open>0.025\<close>) and \<open>0.02\<close>
  otherwise.
\<close>

lemma py_round_at_tie:
  "py_round up (1 / 40) 2 = (if up (5 / 2) then 3 / 100 else 2 / 100)"
proof -
  have "\<lfloor>5 / 2 :: rat\<rfloor> = 2"
    using floor_divide_of_int_eq [of 5 2, where ?'a = rat] by simp
  then show ?thesis
    by (simp add: py_round_def round_nearest_def Let_def)
qed

lemma row_loss_first_score:
  "first_score d = Some x \<Longrightarrow> row_loss (Obj d) l = Inr ((x - l)\<^sup>2)"
  by (auto simp: first_score_def split: option.splits list.splits)

lemma mse_loop_shape:
  "map first_score objs = map Some xs \<Longrightarrow>
   mse_loop loss (zip (map Obj objs) ls) = mse_loop loss (zip (map Number xs) ls)"
proof (induction objs arbitrary: xs ls loss)
  case Nil
  then show ?case by simp
next
  case (Cons d objs)
  then obtain x xs' where xs: "xs = x # xs'" and d: "first_score d = Some x"
    and rest: "map first_score objs = map Some xs'"
    by (cases xs) auto
  show ?case
  proof (cases ls)
    case Nil
    then show ?thesis by simp
  next
    case (Cons l ls')
    from d have "row_loss (Obj d) l = Inr ((x - l)\<^sup>2)"
      by (rule row_loss_first_score)
    with xs Cons Cons.IH [OF rest] show ?thesis
      by (simp del: row_loss.simps(1))
  qed
qed

subsection \<open>The value returned on numeric predictions\<close>

text \<open>
  C3 (as amended). For equal-length non-empty sequences of numeric predictions and labels,
  \<^verbatim>\<open>get_mse_loss\<close> returns \<open>sum((p_i - l_i)^2) / n\<close> rounded to two decimal places: the
  returned value is a multiple of \<open>0.01\<close> within \<open>0.005\<close> of \<open>sum((p_i - l_i)^2) / n\<close>,
  and it is exactly \<open>sum((p_i - l_i)^2) / n\<close> whenever that quantity is itself a multiple
  of \<open>0.01\<close>.
\<close>

theorem get_mse_loss_near_mean:
  assumes "length ps = length ls" and "ps \<noteq> []"
  shows "\<exists>v. get_mse_loss up (Seq (map Number ps)) ls = Inr v \<and>
           \<bar>v - mean_squared_difference ps ls\<bar> \<le> 1 / 200 \<and>
           (\<exists>k::int. v = of_int k / 100) \<and>
           (\<forall>k::int. mean_squared_difference ps ls = of_int k / 100
              \<longrightarrow> v = mean_squared_difference ps ls)"
proof (intro exI conjI allI impI)
  show "get_mse_loss up (Seq (map Number ps)) ls
      = Inr (py_round up (mean_squared_difference ps ls) 2)"
    using assms by (rule get_mse_loss_numbers)
  show "\<bar>py_round up (mean_squared_difference ps ls) 2 - mean_squared_difference ps ls\<bar>
      \<le> 1 / 200"
    by (rule py_round_close)
  show "py_round up (mean_squared_difference ps ls) 2
      = of_int (round_nearest up (mean_squared_difference ps ls * 10\<^sup>2)) / 100"
    by (simp add: py_round_def)
next
  fix k :: int
  assume "mean_squared_difference ps ls = of_int k / 100"
  then show "py_round up (mean_squared_difference ps ls) 2 = mean_squared_difference ps ls"
    by (simp only: py_round_grid)
qed

text \<open>
  The two examples of the specification, \<^verbatim>\<open>mean_squared_error([4,3,5],[4,3,5]) == 0\<close>
  and \<^verbatim>\<open>mean_squared_error([1],[3]) == 4\<close>: both means lie on the \<open>0.01\<close> grid.
\<close>

theorem get_mse_loss_near_mean_witness:
  "\<forall>up. get_mse_loss up (Seq [Number 4, Number 3, Number 5]) [4, 3, 5] = Inr 0 \<and>
        get_mse_loss up (Seq [Number 1]) [3] = Inr 4"
proof
  fix up
  have m1: "mean_squared_difference [4, 3, 5] [4, 3, 5] = of_int 0 / 100"
    by (simp add: mean_squared_difference_def lessThan_Suc numeral_3_eq_3)
  have m2: "mean_squared_difference [1] [3] = of_int 400 / 100"
    by (simp add: mean_squared_difference_def)
  from get_mse_loss_near_mean [of "[4, 3, 5]" "[4, 3, 5]" up] m1
  have "get_mse_loss up (Seq [Number 4, Number 3, Number 5]) [4, 3, 5] = Inr 0"
    by auto
  moreover from get_mse_loss_near_mean [of "[1]" "[3]" up] m2
  have "get_mse_loss up (Seq [Number 1]) [3] = Inr 4"
    by auto
  ultimately show "get_mse_loss up (Seq [Number 4, Number 3, Number 5]) [4, 3, 5] = Inr 0 \<and>
      get_mse_loss up (Seq [Number 1]) [3] = Inr 4"
    by simp
qed

text \<open>
  The unamended statement fails: on predictions \<open>[1, 1, 1]\<close> and labels \<open>[2, 1, 1]\<close> the
  mean of squared differences is \<open>1/3\<close>, and the scorer returns \<open>0.33\<close>. (\<open>1/3\<close> is
  not a tie, so the tie rule plays no part; it is fixed here to keep the statement closed.)
\<close>

theorem get_mse_loss_unrounded_counterexample:
  "get_mse_loss (\<lambda>x. False) (Seq [Number 1, Number 1, Number 1]) [2, 1, 1] = Inr (33 / 100) \<and>
   mean_squared_difference [1, 1, 1] [2, 1, 1] = 1 / 3 \<and>
   get_mse_loss (\<lambda>x. False) (Seq [Number 1, Number 1, Number 1]) [2, 1, 1]
     \<noteq> Inr (mean_squared_difference [1, 1, 1] [2, 1, 1])"
proof -
  have m: "mean_squared_difference [1, 1, 1] [2, 1, 1] = 1 / 3"
    by (simp add: mean_squared_difference_def lessThan_Suc numeral_3_eq_3)
  have g: "get_mse_loss (\<lambda>x. False) (Seq [Number 1, Number 1, Number 1]) [2, 1, 1]
      = Inr (33 / 100)"
    by code_simp
  from m g show ?thesis by simp
qed

text \<open>
  C9. For equal-length non-empty numeric prediction and label sequences,
  \<^verbatim>\<open>get_mse_loss\<close> returns the mean of squared differences rounded to two decimal
  places, not the unrounded mean: the result is \<open>k / 100\<close> for an integer \<open>k\<close> nearest to
  \<open>100\<close> times the mean, which is the only such integer unless the mean lies exactly
  midway between two multiples of \<open>0.01\<close>; and the result differs from the mean whenever
  the mean is not itself a multiple of \<open>0.01\<close>.
\<close>

theorem get_mse_loss_rounded_mean:
  assumes "length ps = length ls" and "ps \<noteq> []"
  shows "\<exists>k::int.
           get_mse_loss up (Seq (map Number ps)) ls = Inr (of_int k / 100) \<and>
           \<bar>of_int k - 100 * mean_squared_difference ps ls\<bar> \<le> 1 / 2 \<and>
           (\<forall>j::int. \<bar>of_int j - 100 * mean_squared_difference ps ls\<bar> < 1 / 2 \<longrightarrow> j = k) \<and>
           ((\<forall>j::int. mean_squared_difference ps ls \<noteq> of_int j / 100) \<longrightarrow>
              get_mse_loss up (Seq (map Number ps)) ls \<noteq> Inr (mean_squared_difference ps ls))"
proof -
  from py_round_nearest [of up "mean_squared_difference ps ls"]
  obtain k :: int where r: "py_round up (mean_squared_difference ps ls) 2 = of_int k / 100"
    and c: "\<bar>of_int k - 100 * mean_squared_difference ps ls\<bar> \<le> 1 / 2"
    and u: "\<forall>j::int. \<bar>of_int j - 100 * mean_squared_difference ps ls\<bar> < 1 / 2 \<longrightarrow> j = k"
    by blast
  from get_mse_loss_numbers [OF assms, of up] r
  have g: "get_mse_loss up (Seq (map Number ps)) ls = Inr (of_int k / 100)"
    by simp
  have "get_mse_loss up (Seq (map Number ps)) ls \<noteq> Inr (mean_squared_difference ps ls)"
    if off: "\<forall>j::int. mean_squared_difference ps ls \<noteq> of_int j / 100"
  proof
    assume "get_mse_loss up (Seq (map Number ps)) ls = Inr (mean_squared_difference ps ls)"
    with g have "mean_squared_difference ps ls = of_int k / 100"
      by simp
    with off show False by blast
  qed
  with g c u show ?thesis by blast
qed

text \<open>At \<open>[1, 2, 4]\<close> against \<open>[3, 2, 2]\<close> the mean is \<open>8/3\<close>; the returned value is
  \<open>2.67\<close> whatever the tie rule, not the unrounded mean.\<close>

theorem get_mse_loss_rounded_mean_witness:
  "\<forall>up. length [1, 2, 4 :: rat] = length [3, 2, 2 :: rat] \<and> [1, 2, 4 :: rat] \<noteq> [] \<and>
        get_mse_loss up (Seq [Number 1, Number 2, Number 4]) [3, 2, 2] = Inr (267 / 100) \<and>
        get_mse_loss up (Seq [Number 1, Number 2, Number 4]) [3, 2, 2] \<noteq> Inr (8 / 3)"
proof
  fix up
  have m: "mean_squared_difference [1, 2, 4] [3, 2, 2] = 8 / 3"
    by (simp add: mean_squared_difference_def lessThan_Suc numeral_3_eq_3)
  from get_mse_loss_rounded_mean [of "[1, 2, 4]" "[3, 2, 2]" up]
  obtain k :: int
    where g: "get_mse_loss up (Seq [Number 1, Number 2, Number 4]) [3, 2, 2] = Inr (of_int k / 100)"
      and u: "\<forall>j::int. \<bar>of_int j - 100 * mean_squared_difference [1, 2, 4] [3, 2, 2]\<bar> < 1 / 2
                \<longrightarrow> j = k"
    by auto
  have "\<bar>of_int 267 - 100 * mean_squared_difference [1, 2, 4] [3, 2, 2]\<bar> < (1 / 2 :: rat)"
    by (simp add: m)
  with u have "267 = k" by blast
  with g show "length [1, 2, 4 :: rat] = length [3, 2, 2 :: rat] \<and> [1, 2, 4 :: rat] \<noteq> [] \<and>
      get_mse_loss up (Seq [Number 1, Number 2, Number 4]) [3, 2, 2] = Inr (267 / 100) \<and>
      get_mse_loss up (Seq [Number 1, Number 2, Number 4]) [3, 2, 2] \<noteq> Inr (8 / 3)"
    by auto
qed

subsection \<open>Length mismatch\<close>

text \<open>
  C4. When the prediction sequence (given bare, or under the key \<^verbatim>\<open>'predictions'\<close>) and
  the label sequence have different lengths, \<^verbatim>\<open>get_mse_loss\<close> returns no value: the
  assertion fails with the message "result and label length mismatch!". This
  \<open>AssertionError\<close> is the code's length-mismatch error.
\<close>

theorem get_mse_loss_length_mismatch:
  assumes "unwrap_predictions res = Inr rows" and "length rows \<noteq> length labels"
  shows "get_mse_loss up res labels
       = Inl (AssertionError ''result and label length mismatch!'')"
  using assms by (simp add: get_mse_loss_def)

theorem get_mse_loss_length_mismatch_witness:
  "\<forall>up. get_mse_loss up (Seq [Number 4, Number 3]) [4] =
          Inl (AssertionError ''result and label length mismatch!'') \<and>
        get_mse_loss up (Response [''predictions'' \<mapsto> [Obj [''scores'' \<mapsto> [4]]]]) [] =
          Inl (AssertionError ''result and label length mismatch!'')"
  using get_mse_loss_length_mismatch [of "Seq [Number 4, Number 3]" "[Number 4, Number 3]" "[4]"]
    get_mse_loss_length_mismatch [of "Response [''predictions'' \<mapsto> [Obj [''scores'' \<mapsto> [4]]]]"
      "[Obj [''scores'' \<mapsto> [4]]]" "[]"]
  by simp

subsection \<open>The two prediction shapes\<close>

text \<open>
  C5. The scorer reads a structured score object through the first element of its
  \<^verbatim>\<open>scores\<close> field. Whenever each object of \<open>objs\<close> carries the corresponding number of
  \<open>xs\<close> there, scoring the objects and scoring the bare numbers give the same result,
  for every label list \<open>ls\<close> (in particular for non-empty \<open>xs\<close> and \<open>ls\<close> of equal
  length, where this result is a number).
\<close>

theorem get_mse_loss_shape_independent:
  assumes "map first_score objs = map Some xs"
  shows "get_mse_loss up (Seq (map Obj objs)) ls = get_mse_loss up (Seq (map Number xs)) ls"
proof -
  from assms have "length objs = length xs"
    by (metis length_map)
  with mse_loop_shape [OF assms] show ?thesis
    by (simp add: get_mse_loss_def)
qed

theorem get_mse_loss_shape_independent_witness:
  "\<forall>up. map first_score [[''scores'' \<mapsto> [1, 9]], [''scores'' \<mapsto> [2], ''id'' \<mapsto> []]]
          = map Some [1, 2] \<and>
        get_mse_loss up
          (Seq [Obj [''scores'' \<mapsto> [1, 9]], Obj [''scores'' \<mapsto> [2], ''id'' \<mapsto> []]]) [3, 2]
          = Inr 2 \<and>
        get_mse_loss up (Seq [Number 1, Number 2]) [3, 2] = Inr 2"
proof
  fix up
  have h: "map first_score [[''scores'' \<mapsto> [1, 9]], [''scores'' \<mapsto> [2], ''id'' \<mapsto> []]]
      = map Some [1, 2]"
    by (simp add: first_score_def)
  have "py_round up (of_int 200 / 100) 2 = of_int 200 / 100"
    by (rule py_round_grid)
  then have v: "get_mse_loss up (Seq [Number 1, Number 2]) [3, 2] = Inr 2"
    by (simp add: get_mse_loss_def)
  from get_mse_loss_shape_independent [OF h, of up "[3, 2]"] h v
  show "map first_score [[''scores'' \<mapsto> [1, 9]], [''scores'' \<mapsto> [2], ''id'' \<mapsto> []]]
          = map Some [1, 2] \<and>
        get_mse_loss up
          (Seq [Obj [''scores'' \<mapsto> [1, 9]], Obj [''scores'' \<mapsto> [2], ''id'' \<mapsto> []]]) [3, 2]
          = Inr 2 \<and>
        get_mse_loss up (Seq [Number 1, Number 2]) [3, 2] = Inr 2"
    by simp
qed

subsection \<open>Division by the label count\<close>

text \<open>
  C10. \<^verbatim>\<open>get_mse_loss\<close> divides by \<^verbatim>\<open>float(len(labels))\<close> without a guard. On the empty
  pair of inputs the assertion passes, the loop does not run and the division raises
  \<open>ZeroDivisionError\<close>. That error arises on no other input: it is returned exactly when
  the label sequence is empty and the (unwrapped) prediction sequence is empty too, so
  with a non-empty label sequence the division never fails.
\<close>

theorem get_mse_loss_empty_ZeroDivisionError:
  "get_mse_loss up (Seq []) [] = Inl ZeroDivisionError \<and>
   (get_mse_loss up res labels = Inl ZeroDivisionError
      \<longleftrightarrow> labels = [] \<and> unwrap_predictions res = Inr [])"
proof
  show "get_mse_loss up (Seq []) [] = Inl ZeroDivisionError"
    by (simp add: get_mse_loss_def)
next
  show "get_mse_loss up res labels = Inl ZeroDivisionError
      \<longleftrightarrow> labels = [] \<and> unwrap_predictions res = Inr []"
  proof (cases "unwrap_predictions res")
    case (Inl e)
    then have "e \<noteq> ZeroDivisionError"
      by (cases res) (auto split: option.splits)
    with Inl show ?thesis by (simp add: get_mse_loss_def)
  next
    case (Inr rows)
    show ?thesis
    proof (cases "length rows = length labels")
      case False
      with Inr show ?thesis by (auto simp: get_mse_loss_def)
    next
      case True
      with Inr mse_loop_not_ZeroDivisionError [of 0 "zip rows labels"] show ?thesis
        by (auto simp: get_mse_loss_def split: sum.splits)
    qed
  qed
qed

theorem get_mse_loss_empty_ZeroDivisionError_witness:
  "\<forall>up. get_mse_loss up (Response [''predictions'' \<mapsto> []]) [] = Inl ZeroDivisionError \<and>
        get_mse_loss up (Seq [Number 1]) [3] \<noteq> Inl ZeroDivisionError"
  using get_mse_loss_empty_ZeroDivisionError [of _ "Response [''predictions'' \<mapsto> []]" "[]"]
    get_mse_loss_empty_ZeroDivisionError [of _ "Seq [Number 1]" "[3]"]
  by simp

section \<open>Properties of the baselines\<close>

subsection \<open>Auxiliary facts\<close>

lemma bs2_loop_known:
  assumes "map (bucket_of user_dict) rows = map Some buckets" and "[] \<notin> set buckets"
  shows "bs2_loop user_dict False thres predictions rows
       = Inr (predictions @ map (\<lambda>b. Finite (sum_list (map snd b) / of_nat (length b))) buckets)"
  using assms
proof (induction rows arbitrary: buckets predictions)
  case Nil
  then show ?case by simp
next
  case (Cons row rows)
  then obtain b bs where buckets: "buckets = b # bs"
    and b: "bucket_of user_dict row = Some b"
    and rest: "map (bucket_of user_dict) rows = map Some bs"
    by (cases buckets) auto
  from Cons.prems buckets have ne: "b \<noteq> []" and ne': "[] \<notin> set bs"
    by auto
  from b ne have "bs2_row user_dict False thres row
      = Inr (Finite (sum_list (map snd b) / of_nat (length b)))"
    by (auto simp: bs2_row_def bucket_of_def np_mean_def split: option.splits list.splits)
  with Cons.IH [OF rest ne'] buckets show ?case
    by simp
qed

lemma bs2_loop_unknown:
  assumes "bs2_loop user_dict c thres predictions rows = Inr ps"
    and "row ''in0'' = Some (u # us)" and "user_dict (str u) = None"
  shows "bs2_loop user_dict c thres predictions (rows @ row # later) = Inl (KeyError (str u))"
  using assms
proof (induction rows arbitrary: predictions)
  case Nil
  then show ?case by (simp add: bs2_row_def)
next
  case (Cons r rows)
  then show ?case
    by (cases "bs2_row user_dict c thres r") simp_all
qed

lemma bs2_row_thres_unused:
  "bs2_row user_dict c thres row = bs2_row user_dict c thres' row"
  by (simp add: bs2_row_def)

lemma bs2_loop_thres_unused:
  "bs2_loop user_dict c thres predictions rows = bs2_loop user_dict c thres' predictions rows"
proof (induction rows arbitrary: predictions)
  case Nil
  show ?case by simp
next
  case (Cons r rows)
  show ?case
    by (simp add: bs2_row_thres_unused [of user_dict c thres r thres'] Cons.IH
        split: sum.split)
qed

text \<open>The result of \<^verbatim>\<open>bs2_predictor\<close> does not depend on its \<^verbatim>\<open>thres\<close> argument.\<close>

lemma bs2_predictor_thres_unused:
  "bs2_predictor test_data user_dict c thres = bs2_predictor test_data user_dict c thres'"
  by (simp add: bs2_predictor_def bs2_loop_thres_unused [of user_dict c thres _ _ thres']
      split: option.split)

subsection \<open>Baseline 2 in regression mode\<close>

text \<open>
  C1. Let every query row of \<open>rows\<close> name a user with a bucket of at least one rating in
  the user index (\<open>buckets\<close> lists these buckets, in query order). Then
  \<^verbatim>\<open>bs2_predictor\<close> returns, for each query, the arithmetic mean of exactly the ratings
  in that user's bucket. If such queries are followed by a query whose user id has no
  bucket, the call raises \<open>KeyError\<close> carrying that user id (the code's unknown-user
  error) instead of returning.
\<close>

theorem bs2_predictor_user_mean:
  assumes "map (bucket_of user_dict) rows = map Some buckets" and "[] \<notin> set buckets"
  shows "(test_data ''instances'' = Some rows \<longrightarrow>
            bs2_predictor test_data user_dict False thres
              = Inr (map (\<lambda>b. Finite ((\<Sum>(m, r) \<leftarrow> b. r) / of_nat (length b))) buckets)) \<and>
         (test_data ''instances'' = Some (rows @ row # later) \<and>
          row ''in0'' = Some (u # us) \<and> user_dict (str u) = None \<longrightarrow>
            bs2_predictor test_data user_dict False thres = Inl (KeyError (str u)))"
proof -
  have snd_eq: "(\<Sum>(m, r) \<leftarrow> b. r) = sum_list (map snd b)" for b :: "(string \<times> rat) list"
    by (simp add: case_prod_unfold)
  have known: "bs2_loop user_dict False thres [] rows
      = Inr (map (\<lambda>b. Finite ((\<Sum>(m, r) \<leftarrow> b. r) / of_nat (length b))) buckets)"
    using bs2_loop_known [OF assms, of thres "[]"] by (simp add: snd_eq)
  show ?thesis
  proof (intro conjI impI)
    assume "test_data ''instances'' = Some rows"
    with known show "bs2_predictor test_data user_dict False thres
        = Inr (map (\<lambda>b. Finite ((\<Sum>(m, r) \<leftarrow> b. r) / of_nat (length b))) buckets)"
      by (simp add: bs2_predictor_def)
  next
    assume a: "test_data ''instances'' = Some (rows @ row # later) \<and>
      row ''in0'' = Some (u # us) \<and> user_dict (str u) = None"
    then have "bs2_loop user_dict False thres [] (rows @ row # later) = Inl (KeyError (str u))"
      using bs2_loop_unknown [OF known, of row u us later] by simp
    with a show "bs2_predictor test_data user_dict False thres = Inl (KeyError (str u))"
      by (simp add: bs2_predictor_def)
  qed
qed

text \<open>
  The scenario of the specification: \<open>u1\<close> rated \<open>5\<close> and \<open>3\<close>, \<open>u2\<close> rated \<open>4\<close>. Both
  users are predicted \<open>4\<close>; a query for the unseen user \<open>3\<close> raises \<open>KeyError\<close>.
\<close>

theorem bs2_predictor_user_mean_witness:
  "bs2_predictor
     [''instances'' \<mapsto> [[''in0'' \<mapsto> [1], ''in1'' \<mapsto> [1]], [''in0'' \<mapsto> [2], ''in1'' \<mapsto> [1]]]]
     [''1'' \<mapsto> [(''1'', 5), (''2'', 3)], ''2'' \<mapsto> [(''1'', 4)]] False 3
     = Inr [Finite 4, Finite 4] \<and>
   bs2_predictor
     [''instances'' \<mapsto> [[''in0'' \<mapsto> [1], ''in1'' \<mapsto> [1]], [''in0'' \<mapsto> [2], ''in1'' \<mapsto> [1]],
                      [''in0'' \<mapsto> [3], ''in1'' \<mapsto> [1]]]]
     [''1'' \<mapsto> [(''1'', 5), (''2'', 3)], ''2'' \<mapsto> [(''1'', 4)]] False 3
     = Inl (KeyError ''3'')"
proof -
  have s1: "str 1 = ''1''" and s2: "str 2 = ''2''" and s3: "str 3 = ''3''"
    by (simp_all add: str_def digit_chars.simps)
  have h1: "map (bucket_of [''1'' \<mapsto> [(''1'', 5), (''2'', 3)], ''2'' \<mapsto> [(''1'', 4)]])
        [[''in0'' \<mapsto> [1], ''in1'' \<mapsto> [1]], [''in0'' \<mapsto> [2], ''in1'' \<mapsto> [1]]]
      = map Some [[(''1'', 5), (''2'', 3)], [(''1'', 4)]]"
    by (simp add: bucket_of_def s1 s2)
  have h2: "[] \<notin> set [[(''1'', 5 :: rat), (''2'', 3)], [(''1'', 4)]]"
    by simp
  note t = bs2_predictor_user_mean [OF h1 h2]
  from t [of "[''instances'' \<mapsto> [[''in0'' \<mapsto> [1], ''in1'' \<mapsto> [1]], [''in0'' \<mapsto> [2], ''in1'' \<mapsto> [1]]]]" 3]
  have a: "bs2_predictor
     [''instances'' \<mapsto> [[''in0'' \<mapsto> [1], ''in1'' \<mapsto> [1]], [''in0'' \<mapsto> [2], ''in1'' \<mapsto> [1]]]]
     [''1'' \<mapsto> [(''1'', 5), (''2'', 3)], ''2'' \<mapsto> [(''1'', 4)]] False 3
     = Inr [Finite 4, Finite 4]"
    by simp
  from t [of "[''instances'' \<mapsto> [[''in0'' \<mapsto> [1], ''in1'' \<mapsto> [1]], [''in0'' \<mapsto> [2], ''in1'' \<mapsto> [1]],
                      [''in0'' \<mapsto> [3], ''in1'' \<mapsto> [1]]]]" 3
        "[''in0'' \<mapsto> [3], ''in1'' \<mapsto> [1]]" "[]" 3 "[]"]
  have b: "bs2_predictor
     [''instances'' \<mapsto> [[''in0'' \<mapsto> [1], ''in1'' \<mapsto> [1]], [''in0'' \<mapsto> [2], ''in1'' \<mapsto> [1]],
                      [''in0'' \<mapsto> [3], ''in1'' \<mapsto> [1]]]]
     [''1'' \<mapsto> [(''1'', 5), (''2'', 3)], ''2'' \<mapsto> [(''1'', 4)]] False 3
     = Inl (KeyError ''3'')"
    by (simp add: s3)
  from a b show ?thesis by simp
qed

subsection \<open>Baseline 2 in classification mode\<close>

text \<open>
  C2. In classification mode the caller's threshold is not what the mean is compared
  with. For a user whose ratings are \<open>4\<close> and \<open>5\<close> (mean \<open>4.5\<close>) and the threshold
  \<open>5\<close>, the predictor returns the label \<open>1\<close>, although \<open>4.5 > 5\<close> is false: the
  comparison in the body is against the literal \<open>3\<close>.
\<close>

theorem bs2_predictor_threshold_ignored:
  "bs2_predictor [''instances'' \<mapsto> [[''in0'' \<mapsto> [1], ''in1'' \<mapsto> [10]]]]
     [''1'' \<mapsto> [(''10'', 4), (''20'', 5)]] False 5 = Inr [Finite (9 / 2)] \<and>
   bs2_predictor [''instances'' \<mapsto> [[''in0'' \<mapsto> [1], ''in1'' \<mapsto> [10]]]]
     [''1'' \<mapsto> [(''10'', 4), (''20'', 5)]] True 5 = Inr [Finite 1] \<and>
   \<not> gt_np (Finite (9 / 2)) 5"
proof -
  have s1: "str 1 = ''1''"
    by (simp add: str_def digit_chars.simps)
  show ?thesis
    by (simp add: bs2_predictor_def bs2_row_def np_mean_def s1)
qed

subsection \<open>Baseline 1\<close>

text \<open>
  C6 (as amended). The global-mean baseline precomputes the arithmetic mean of all
  training-set ratings rounded to two decimal places (the constant is \<open>k / 100\<close> for an
  integer \<open>k\<close> nearest to \<open>100\<close> times the mean, the only such integer unless the mean
  lies exactly midway between two multiples of \<open>0.01\<close>), and the prediction for every
  query is exactly that constant; in particular on the training set
  \<open>[(u1,m1,5),(u1,m2,3),(u2,m1,4)]\<close> every prediction equals \<open>4.0\<close>.
\<close>

theorem bs1_predictions_rounded_global_mean:
  assumes "train_data_list \<noteq> []" and "i < length valid_r_label"
  shows "(\<exists>k::int.
            bs1_prediction up train_data_list = Finite (of_int k / 100) \<and>
            \<bar>of_int k - 100 * (sum_list (map label train_data_list)
                                  / of_nat (length train_data_list))\<bar> \<le> 1 / 2 \<and>
            (\<forall>j::int. \<bar>of_int j - 100 * (sum_list (map label train_data_list)
                                            / of_nat (length train_data_list))\<bar> < 1 / 2
                \<longrightarrow> j = k)) \<and>
         bs1_predictions up train_data_list valid_r_label ! i
           = bs1_prediction up train_data_list \<and>
         bs1_predictions up
           [\<lparr>label = 5, in0 = [1], in1 = [1]\<rparr>, \<lparr>label = 3, in0 = [1], in1 = [2]\<rparr>,
            \<lparr>label = 4, in0 = [2], in1 = [1]\<rparr>] valid_r_label ! i = Finite 4"
proof (intro conjI)
  from assms(1) have "bs1_prediction up train_data_list
      = Finite (py_round up (sum_list (map label train_data_list)
                               / of_nat (length train_data_list)) 2)"
    by (simp add: bs1_prediction_def train_r_label_def np_mean_def)
  with py_round_nearest [of up "sum_list (map label train_data_list)
                                  / of_nat (length train_data_list)"]
  show "\<exists>k::int.
      bs1_prediction up train_data_list = Finite (of_int k / 100) \<and>
      \<bar>of_int k - 100 * (sum_list (map label train_data_list)
                            / of_nat (length train_data_list))\<bar> \<le> 1 / 2 \<and>
      (\<forall>j::int. \<bar>of_int j - 100 * (sum_list (map label train_data_list)
                                      / of_nat (length train_data_list))\<bar> < 1 / 2
          \<longrightarrow> j = k)"
    by simp
next
  from assms(2) show "bs1_predictions up train_data_list valid_r_label ! i
      = bs1_prediction up train_data_list"
    by (simp add: bs1_predictions_def)
next
  have "py_round up (of_int 400 / 100) 2 = of_int 400 / 100"
    by (rule py_round_grid)
  then have "py_round up 4 2 = 4" by simp
  with assms(2) show "bs1_predictions up
      [\<lparr>label = 5, in0 = [1], in1 = [1]\<rparr>, \<lparr>label = 3, in0 = [1], in1 = [2]\<rparr>,
       \<lparr>label = 4, in0 = [2], in1 = [1]\<rparr>] valid_r_label ! i = Finite 4"
    by (simp add: bs1_predictions_def bs1_prediction_def train_r_label_def np_mean_def)
qed

text \<open>For the training ratings \<open>1, 1, 2\<close> (mean \<open>4/3\<close>) every prediction is \<open>1.33\<close>,
  whatever the tie rule; for the scenario above it is \<open>4\<close>.\<close>

theorem bs1_predictions_rounded_global_mean_witness:
  "\<forall>up. bs1_predictions up
          [\<lparr>label = 1, in0 = [1], in1 = [1]\<rparr>, \<lparr>label = 1, in0 = [1], in1 = [2]\<rparr>,
           \<lparr>label = 2, in0 = [2], in1 = [1]\<rparr>] [5, 3] ! 1 = Finite (133 / 100) \<and>
        bs1_predictions up
          [\<lparr>label = 5, in0 = [1], in1 = [1]\<rparr>, \<lparr>label = 3, in0 = [1], in1 = [2]\<rparr>,
           \<lparr>label = 4, in0 = [2], in1 = [1]\<rparr>] [5, 3] ! 1 = Finite 4"
proof
  fix up
  let ?train = "[\<lparr>label = 1, in0 = [1], in1 = [1]\<rparr>, \<lparr>label = 1, in0 = [1], in1 = [2]\<rparr>,
                 \<lparr>label = 2, in0 = [2], in1 = [1]\<rparr>]"
  note t = bs1_predictions_rounded_global_mean [of ?train 1 "[5, 3]" up]
  from t obtain k :: int
    where p: "bs1_prediction up ?train = Finite (of_int k / 100)"
      and u: "\<forall>j::int. \<bar>of_int j - 100 * (sum_list (map label ?train)
                                             / of_nat (length ?train))\<bar> < 1 / 2 \<longrightarrow> j = k"
    by auto
  have "\<bar>of_int 133 - 100 * (sum_list (map label ?train) / of_nat (length ?train))\<bar>
      < (1 / 2 :: rat)"
    by simp
  with u have k: "133 = k" by blast
  from t have e: "bs1_predictions up ?train [5, 3] ! 1 = bs1_prediction up ?train"
    and sc: "bs1_predictions up
      [\<lparr>label = 5, in0 = [1], in1 = [1]\<rparr>, \<lparr>label = 3, in0 = [1], in1 = [2]\<rparr>,
       \<lparr>label = 4, in0 = [2], in1 = [1]\<rparr>] [5, 3] ! 1 = Finite 4"
    by simp_all
  from p k [symmetric] e sc show "bs1_predictions up ?train [5, 3] ! 1 = Finite (133 / 100) \<and>
      bs1_predictions up
        [\<lparr>label = 5, in0 = [1], in1 = [1]\<rparr>, \<lparr>label = 3, in0 = [1], in1 = [2]\<rparr>,
         \<lparr>label = 4, in0 = [2], in1 = [1]\<rparr>] [5, 3] ! 1 = Finite 4"
    by simp
qed

text \<open>
  The unamended statement fails: for the training ratings \<open>1, 1, 2\<close> the arithmetic mean
  is \<open>4/3\<close> and the baseline predicts \<open>1.33\<close>. (\<open>4/3\<close> is not a tie, so the tie rule
  plays no part; it is fixed here to keep the statement closed.)
\<close>

theorem bs1_prediction_unrounded_counterexample:
  "np_mean (train_r_label
     [\<lparr>label = 1, in0 = [1], in1 = [1]\<rparr>, \<lparr>label = 1, in0 = [1], in1 = [2]\<rparr>,
      \<lparr>label = 2, in0 = [2], in1 = [1]\<rparr>]) = Finite (4 / 3) \<and>
   bs1_predictions (\<lambda>x. False)
     [\<lparr>label = 1, in0 = [1], in1 = [1]\<rparr>, \<lparr>label = 1, in0 = [1], in1 = [2]\<rparr>,
      \<lparr>label = 2, in0 = [2], in1 = [1]\<rparr>] [5] = [Finite (133 / 100)] \<and>
   bs1_predictions (\<lambda>x. False)
     [\<lparr>label = 1, in0 = [1], in1 = [1]\<rparr>, \<lparr>label = 1, in0 = [1], in1 = [2]\<rparr>,
      \<lparr>label = 2, in0 = [2], in1 = [1]\<rparr>] [5]
     \<noteq> [np_mean (train_r_label
          [\<lparr>label = 1, in0 = [1], in1 = [1]\<rparr>, \<lparr>label = 1, in0 = [1], in1 = [2]\<rparr>,
           \<lparr>label = 2, in0 = [2], in1 = [1]\<rparr>])]"
proof -
  have r: "py_round (\<lambda>x. False) (4 / 3) 2 = 133 / 100"
    by code_simp
  then show ?thesis
    by (simp add: bs1_predictions_def bs1_prediction_def train_r_label_def np_mean_def)
qed

text \<open>
  C8. When the training set contains zero ratings, the global-mean computation yields
  \<open>NaN\<close>: the mean of the empty list is \<open>NaN\<close> and rounding keeps it. The baseline is
  then neither zero nor any other ordinary number, and \<open>NaN\<close> is what every query is
  predicted.
\<close>

theorem bs1_prediction_empty_NaN:
  "bs1_prediction up [] = NaN \<and>
   (\<forall>v. bs1_prediction up [] \<noteq> Finite v) \<and>
   bs1_predictions up [] valid_r_label = replicate (length valid_r_label) NaN"
  by (simp add: bs1_predictions_def bs1_prediction_def train_r_label_def np_mean_def)

subsection \<open>Binarized labels\<close>

text \<open>
  C7. Binarization by \<open>to_classification_label\<close> is strict greater-than: with threshold
  \<open>3.0\<close>, a record with rating \<open>4\<close> yields label \<open>1\<close>, a record with rating exactly \<open>3\<close>
  yields label \<open>0\<close>, and a record with rating \<open>2\<close> yields label \<open>0\<close>.
\<close>

theorem to_classification_label_strict:
  "example_label (to_classification_label \<lparr>user_id = u, item_id = m, rating = 4\<rparr> 3) = 1 \<and>
   example_label (to_classification_label \<lparr>user_id = u, item_id = m, rating = 3\<rparr> 3) = 0 \<and>
   example_label (to_classification_label \<lparr>user_id = u, item_id = m, rating = 2\<rparr> 3) = 0 \<and>
   (example_label (to_classification_label r t) = 1 \<longleftrightarrow> t < rating r)"
  by (simp add: to_classification_label_def)

end
